theory Spec2Isabelle
  imports Complex_Main
begin

section \<open>Values shared by the services\<close>

text \<open>
  JavaScript numbers are modelled as exact reals: every statement below is about
  the arithmetic the code writes down, not about IEEE rounding.  An instant (the
  value of \<open>Date.getTime()\<close>) is an integer count of milliseconds since the epoch.
  A date-only string \<open>YYYY-MM-DD\<close>, as produced by
  \<open>toISOString().split('T')[0]\<close> and stored in \<open>Transaction.date\<close>, is modelled
  by the number of the day it denotes (days since 1970-01-01); \<open>new Date(s)\<close> of such
  a string is midnight UTC of that day.  The only date string kept as text is a goal's
  deadline, because its validation is part of the model.
\<close>

type_synonym instant = int
type_synonym isodate = int

text \<open>
  The environment of a call: the clock reading \<open>new Date()\<close> and the offset of local
  time from UTC in milliseconds (a fixed offset: daylight-saving changes are outside
  the model).
\<close>

record env =
  now :: instant
  tz :: int

definition DAY :: int where
  "DAY = 86400000"

datatype TransactionType = expense | income

record Transaction =
  t_id :: string
  t_type :: TransactionType
  t_amount :: real
  t_category :: string
  t_description :: string
  t_date :: isodate

datatype BudgetPeriod = daily | weekly | monthly | yearly

record Budget =
  b_id :: string
  b_name :: string
  b_category :: string
  b_limit :: real
  b_spent :: real
  b_period :: BudgetPeriod
  b_alertThreshold :: real
  b_startDate :: isodate
  b_isActive :: bool

datatype GoalPriority = low | medium | high

record GoalContribution =
  c_id :: string
  c_amount :: real
  c_date :: isodate
  c_note :: "string option"

record SavingsGoal =
  g_id :: string
  g_name :: string
  g_description :: "string option"
  g_targetAmount :: real
  g_currentAmount :: real
  g_deadline :: "string option"
  g_priority :: GoalPriority
  g_contributions :: "GoalContribution list"
  g_isCompleted :: bool
  g_createdAt :: instant
  g_updatedAt :: instant

text \<open>The part of the persisted document (\<open>ClawhubData\<close>) the services below read and write.\<close>

record storage =
  transactions :: "Transaction list"
  budgets :: "Budget list"
  goals :: "SavingsGoal list"

text \<open>
  \<open>ActionResult<T>\<close>: a failure carries \<open>message\<close> and \<open>error\<close>, a success carries
  \<open>data\<close> and \<open>message\<close>.  Messages built from template strings are kept as the
  template's name together with the values interpolated into it.
\<close>

datatype msg =
    ValidationFailed
  | GoalNotFound
  | InvalidAmount
  | InsufficientFunds
  | GoalCreated string
  | Added real string bool
  | Withdrew real string

datatype err =
    ValidationErrors "string list"
  | NoGoalWithId string
  | ContributionMustBePositive
  | WithdrawalMustBePositive
  | OnlyAvailable real

datatype 'a ActionResult = Failure msg err | Success 'a msg

section \<open>Characters and strings\<close>

text \<open>
  Strings are lists of 8-bit characters, read as the code units U+0000 to U+00FF.
\<close>

definition charCode :: "char \<Rightarrow> nat" where
  "charCode c = of_char c"

definition isDigit :: "char \<Rightarrow> bool" where
  "isDigit c = (48 \<le> charCode c \<and> charCode c \<le> 57)"

definition isLowerAZ :: "char \<Rightarrow> bool" where
  "isLowerAZ c = (97 \<le> charCode c \<and> charCode c \<le> 122)"

definition isUpperAZ :: "char \<Rightarrow> bool" where
  "isUpperAZ c = (65 \<le> charCode c \<and> charCode c \<le> 90)"

text \<open>\<open>\w\<close> is \<open>[A-Za-z0-9_]\<close>.\<close>

definition isWord :: "char \<Rightarrow> bool" where
  "isWord c = (isDigit c \<or> isLowerAZ c \<or> isUpperAZ c \<or> c = CHR ''_'')"

text \<open>
  \<open>\s\<close>, and what \<open>trim()\<close> strips: TAB, LF, VT, FF, CR, SPACE and U+00A0.
\<close>

definition isSpace :: "char \<Rightarrow> bool" where
  "isSpace c = (charCode c \<in> {9, 10, 11, 12, 13, 32, 160})"

text \<open>
  \<open>toLowerCase\<close> on one code unit: A-Z, and the Latin-1 capitals U+00C0 to U+00DE
  with the multiplication sign U+00D7 left alone.
\<close>

definition lowerChar :: "char \<Rightarrow> char" where
  "lowerChar c =
     (let n = charCode c
      in if (65 \<le> n \<and> n \<le> 90) \<or> (192 \<le> n \<and> n \<le> 222 \<and> n \<noteq> 215)
         then char_of (n + 32) else c)"

definition toLowerCase :: "string \<Rightarrow> string" where
  "toLowerCase s = map lowerChar s"

text \<open>
  \<open>toUpperCase\<close> of a one-character string.  The sharp s becomes two letters; the
  capitals of U+00B5 and U+00FF lie outside the 8-bit range and those two characters
  are left as they are.
\<close>

definition upperChar :: "char \<Rightarrow> string" where
  "upperChar c =
     (let n = charCode c
      in if (97 \<le> n \<and> n \<le> 122) \<or> (224 \<le> n \<and> n \<le> 254 \<and> n \<noteq> 247)
         then [char_of (n - 32)]
         else if n = 223 then ''SS'' else [c])"

definition trim :: "string \<Rightarrow> string" where
  "trim s = rev (dropWhile isSpace (rev (dropWhile isSpace s)))"

text \<open>\<open>haystack.includes(needle)\<close>.\<close>

fun startsWith :: "string \<Rightarrow> string \<Rightarrow> bool" where
  "startsWith s [] = True"
| "startsWith [] (k # ks) = False"
| "startsWith (c # cs) (k # ks) = (c = k \<and> startsWith cs ks)"

fun includesStr :: "string \<Rightarrow> string \<Rightarrow> bool" where
  "includesStr [] kw = (kw = [])"
| "includesStr (c # cs) kw = (startsWith (c # cs) kw \<or> includesStr cs kw)"

text \<open>\<open>parseInt\<close> of a string of decimal digits.\<close>

definition digitVal :: "char \<Rightarrow> nat" where
  "digitVal c = charCode c - 48"

definition parseDigits :: "string \<Rightarrow> nat" where
  "parseDigits s = foldl (\<lambda>acc c. 10 * acc + digitVal c) 0 s"

section \<open>The calendar behind Date and date-fns\<close>

text \<open>
  The proleptic Gregorian calendar on day numbers (day 0 is 1970-01-01), in the usual
  era arithmetic; \<open>div\<close> on integers rounds down.
\<close>

definition days_from_civil :: "int \<Rightarrow> int \<Rightarrow> int \<Rightarrow> int" where
  "days_from_civil y m d =
     (let y' = (if m \<le> 2 then y - 1 else y);
          era = y' div 400;
          yoe = y' - era * 400;
          doy = (153 * (if m > 2 then m - 3 else m + 9) + 2) div 5 + d - 1;
          doe = yoe * 365 + yoe div 4 - yoe div 100 + doy
      in era * 146097 + doe - 719468)"

definition civil_from_days :: "int \<Rightarrow> int \<times> int \<times> int" where
  "civil_from_days z =
     (let z' = z + 719468;
          era = z' div 146097;
          doe = z' - era * 146097;
          yoe = (doe - doe div 1460 + doe div 36524 - doe div 146096) div 365;
          doy = doe - (365 * yoe + yoe div 4 - yoe div 100);
          mp = (5 * doy + 2) div 153;
          d = doy - (153 * mp + 2) div 5 + 1;
          m = (if mp < 10 then mp + 3 else mp - 9);
          y = yoe + era * 400
      in (if m \<le> 2 then y + 1 else y, m, d))"

text \<open>
  \<open>MakeDay(year, month, date)\<close> of ECMAScript: the month index (0 is January) may lie
  outside 0..11 and the date outside the month; both carry over.
\<close>

definition makeDay :: "int \<Rightarrow> int \<Rightarrow> int \<Rightarrow> int" where
  "makeDay y mi d = days_from_civil (y + mi div 12) (mi mod 12 + 1) 1 + d - 1"

text \<open>The local day number of an instant, and the local fields of a Date.\<close>

definition localDay :: "env \<Rightarrow> instant \<Rightarrow> int" where
  "localDay e t = (t + tz e) div DAY"

definition msOfDay :: "env \<Rightarrow> instant \<Rightarrow> int" where
  "msOfDay e t = (t + tz e) mod DAY"

definition getFullYear :: "env \<Rightarrow> instant \<Rightarrow> int" where
  "getFullYear e t = fst (civil_from_days (localDay e t))"

text \<open>\<open>getMonth\<close>: 0 is January.\<close>

definition getMonth :: "env \<Rightarrow> instant \<Rightarrow> int" where
  "getMonth e t = fst (snd (civil_from_days (localDay e t))) - 1"

definition getDate :: "env \<Rightarrow> instant \<Rightarrow> int" where
  "getDate e t = snd (snd (civil_from_days (localDay e t)))"

text \<open>\<open>getDay\<close>: 0 is Sunday; day 0 was a Thursday.\<close>

definition getDay :: "env \<Rightarrow> instant \<Rightarrow> int" where
  "getDay e t = (localDay e t + 4) mod 7"

text \<open>The instant of a local day number and a time of day.\<close>

definition localInstant :: "env \<Rightarrow> int \<Rightarrow> int \<Rightarrow> instant" where
  "localInstant e dn ms = dn * DAY + ms - tz e"

text \<open>
  \<open>new Date(year, monthIndex, day)\<close>: local midnight; a year from 0 to 99 means
  1900 + year.
\<close>

definition newDate :: "env \<Rightarrow> int \<Rightarrow> int \<Rightarrow> int \<Rightarrow> instant" where
  "newDate e y mi d =
     localInstant e (makeDay (if 0 \<le> y \<and> y \<le> 99 then 1900 + y else y) mi d) 0"

text \<open>\<open>d.setDate(d.getDate() + n)\<close>: the same local time of day, n days later.\<close>

definition addDays :: "instant \<Rightarrow> int \<Rightarrow> instant" where
  "addDays t n = t + n * DAY"

text \<open>\<open>new Date(s)\<close> for a date-only string: midnight UTC.\<close>

definition dateOfIso :: "isodate \<Rightarrow> instant" where
  "dateOfIso d = d * DAY"

text \<open>\<open>toISOString().split('T')[0]\<close>: the UTC date of an instant.\<close>

definition formatDateISO :: "instant \<Rightarrow> isodate" where
  "formatDateISO t = t div DAY"

text \<open>\<open>format(d, 'yyyy-MM-dd')\<close> of date-fns: the local date of an instant.\<close>

definition formatLocalDate :: "env \<Rightarrow> instant \<Rightarrow> isodate" where
  "formatLocalDate e t = localDay e t"

text \<open>The date-fns functions the engines import, in local time, weeks starting on Sunday.\<close>

definition startOfDay :: "env \<Rightarrow> instant \<Rightarrow> instant" where
  "startOfDay e t = localInstant e (localDay e t) 0"

definition endOfDay :: "env \<Rightarrow> instant \<Rightarrow> instant" where
  "endOfDay e t = localInstant e (localDay e t) (DAY - 1)"

definition startOfWeek :: "env \<Rightarrow> instant \<Rightarrow> instant" where
  "startOfWeek e t = localInstant e (localDay e t - getDay e t) 0"

definition endOfWeek :: "env \<Rightarrow> instant \<Rightarrow> instant" where
  "endOfWeek e t = localInstant e (localDay e t + (6 - getDay e t)) (DAY - 1)"

definition startOfMonth :: "env \<Rightarrow> instant \<Rightarrow> instant" where
  "startOfMonth e t = localInstant e (makeDay (getFullYear e t) (getMonth e t) 1) 0"

text \<open>\<open>endOfMonth\<close> sets the date to day 0 of the next month, 23:59:59.999.\<close>

definition endOfMonth :: "env \<Rightarrow> instant \<Rightarrow> instant" where
  "endOfMonth e t = localInstant e (makeDay (getFullYear e t) (getMonth e t + 1) 0) (DAY - 1)"

definition startOfYear :: "env \<Rightarrow> instant \<Rightarrow> instant" where
  "startOfYear e t = localInstant e (makeDay (getFullYear e t) 0 1) 0"

definition endOfYear :: "env \<Rightarrow> instant \<Rightarrow> instant" where
  "endOfYear e t = localInstant e (makeDay (getFullYear e t + 1) 0 0) (DAY - 1)"

text \<open>
  \<open>isWithinInterval(date, {start, end})\<close>: both ends belong to the interval.  This
  is what every version of date-fns computes for an interval that does not start after
  its end, as the windows and ranges built below do not.
\<close>

definition isWithinInterval :: "instant \<Rightarrow> instant \<times> instant \<Rightarrow> bool" where
  "isWithinInterval t r = (fst r \<le> t \<and> t \<le> snd r)"

text \<open>
  \<open>addMonths(date, n)\<close>: the same day of the month n months later, or the last day of
  that month when it is shorter; \<open>subMonths(date, n)\<close> is \<open>addMonths(date, -n)\<close>.
\<close>

definition addMonths :: "env \<Rightarrow> instant \<Rightarrow> int \<Rightarrow> instant" where
  "addMonths e t n =
     (let endOfDesiredMonth = makeDay (getFullYear e t) (getMonth e t + n + 1) 0;
          daysInMonth = snd (snd (civil_from_days endOfDesiredMonth))
      in if getDate e t \<ge> daysInMonth
         then localInstant e endOfDesiredMonth (msOfDay e t)
         else localInstant e
                (makeDay (fst (civil_from_days endOfDesiredMonth))
                         (fst (snd (civil_from_days endOfDesiredMonth)) - 1) (getDate e t))
                (msOfDay e t))"

definition subMonths :: "env \<Rightarrow> instant \<Rightarrow> int \<Rightarrow> instant" where
  "subMonths e t n = addMonths e t (- n)"

section \<open>Goals service\<close>

text \<open>\<open>isValidDate\<close> of the validator: the shape \<open>dddd-dd-dd\<close>, and a string the Date
  constructor accepts (month 01 to 12, day 01 to 31).\<close>

definition isValidDate :: "string \<Rightarrow> bool" where
  "isValidDate s =
     (length s = 10 \<and> s ! 4 = CHR ''-'' \<and> s ! 7 = CHR ''-''
      \<and> list_all isDigit (take 4 s) \<and> list_all isDigit (take 2 (drop 5 s))
      \<and> list_all isDigit (drop 8 s)
      \<and> 1 \<le> parseDigits (take 2 (drop 5 s)) \<and> parseDigits (take 2 (drop 5 s)) \<le> 12
      \<and> 1 \<le> parseDigits (drop 8 s) \<and> parseDigits (drop 8 s) \<le> 31)"

text \<open>The argument of \<open>createGoal\<close>.\<close>

record GoalData =
  d_name :: string
  d_description :: "string option"
  d_targetAmount :: real
  d_currentAmount :: "real option"
  d_deadline :: "string option"
  d_priority :: "GoalPriority option"

definition validateGoal :: "GoalData \<Rightarrow> string list" where
  "validateGoal d =
     (if d_name d = [] then [''Goal name is required''] else [])
     @ (if d_targetAmount d \<le> 0 then [''Target amount must be a positive number''] else [])
     @ (case d_currentAmount d of
          None \<Rightarrow> []
        | Some a \<Rightarrow> if a < 0 then [''Current amount must be a non-negative number''] else [])
     @ (case d_deadline d of
          None \<Rightarrow> []
        | Some dl \<Rightarrow> if dl \<noteq> [] \<and> \<not> isValidDate dl
                     then [''Invalid deadline format (use YYYY-MM-DD)''] else [])"

text \<open>The storage manager's goal operations.\<close>

definition getGoalById :: "storage \<Rightarrow> string \<Rightarrow> SavingsGoal option" where
  "getGoalById st gid = find (\<lambda>g. g_id g = gid) (goals st)"

definition addGoal :: "storage \<Rightarrow> SavingsGoal \<Rightarrow> storage" where
  "addGoal st g = st\<lparr>goals := goals st @ [g]\<rparr>"

text \<open>
  \<open>updateGoal(id, updates)\<close> overwrites the first goal with that id; both callers
  below pass the same three fields.
\<close>

fun updateFirst :: "('a \<Rightarrow> bool) \<Rightarrow> ('a \<Rightarrow> 'a) \<Rightarrow> 'a list \<Rightarrow> 'a list" where
  "updateFirst P f [] = []"
| "updateFirst P f (x # xs) = (if P x then f x # xs else x # updateFirst P f xs)"

definition updateGoal ::
  "env \<Rightarrow> storage \<Rightarrow> string \<Rightarrow> real \<Rightarrow> bool \<Rightarrow> GoalContribution list \<Rightarrow> storage" where
  "updateGoal e st gid amount completed ledger =
     st\<lparr>goals := updateFirst (\<lambda>g. g_id g = gid)
            (\<lambda>g. g\<lparr>g_currentAmount := amount, g_isCompleted := completed,
                    g_contributions := ledger, g_updatedAt := now e\<rparr>)
            (goals st)\<rparr>"

text \<open>
  The services draw an identifier from \<open>uuidv4()\<close>; the drawn string is an argument
  here.
\<close>

definition createGoal ::
  "env \<Rightarrow> string \<Rightarrow> storage \<Rightarrow> GoalData \<Rightarrow> SavingsGoal ActionResult \<times> storage" where
  "createGoal e uuid st d =
     (if validateGoal d \<noteq> [] then (Failure ValidationFailed (ValidationErrors (validateGoal d)), st)
      else
        let goal = \<lparr>g_id = ''goal_'' @ take 8 uuid,
                    g_name = d_name d,
                    g_description = d_description d,
                    g_targetAmount = d_targetAmount d,
                    g_currentAmount = (case d_currentAmount d of None \<Rightarrow> 0 | Some a \<Rightarrow> a),
                    g_deadline = d_deadline d,
                    g_priority = (case d_priority d of None \<Rightarrow> medium | Some p \<Rightarrow> p),
                    g_contributions = [],
                    g_isCompleted = False,
                    g_createdAt = now e,
                    g_updatedAt = now e\<rparr>
        in (Success goal (GoalCreated (g_name goal)), addGoal st goal))"

definition addContribution ::
  "env \<Rightarrow> string \<Rightarrow> storage \<Rightarrow> string \<Rightarrow> real \<Rightarrow> string option
     \<Rightarrow> SavingsGoal ActionResult \<times> storage" where
  "addContribution e uuid st goalId amount note =
     (case getGoalById st goalId of
        None \<Rightarrow> (Failure GoalNotFound (NoGoalWithId goalId), st)
      | Some goal \<Rightarrow>
          if amount \<le> 0 then (Failure InvalidAmount ContributionMustBePositive, st)
          else
            let contribution = \<lparr>c_id = ''contrib_'' @ take 8 uuid, c_amount = amount,
                                c_date = formatDateISO (now e), c_note = note\<rparr>;
                newCurrentAmount = g_currentAmount goal + amount;
                isCompleted = (newCurrentAmount \<ge> g_targetAmount goal);
                st' = updateGoal e st goalId newCurrentAmount isCompleted
                        (g_contributions goal @ [contribution])
            in (case getGoalById st' goalId of
                  None \<Rightarrow> (Failure GoalNotFound (NoGoalWithId goalId), st')
                | Some updated \<Rightarrow>
                    (Success updated
                       (Added amount (g_name goal) (isCompleted \<and> \<not> g_isCompleted goal)), st')))"

definition withdrawFromGoal ::
  "env \<Rightarrow> string \<Rightarrow> storage \<Rightarrow> string \<Rightarrow> real \<Rightarrow> string option
     \<Rightarrow> SavingsGoal ActionResult \<times> storage" where
  "withdrawFromGoal e uuid st goalId amount note =
     (case getGoalById st goalId of
        None \<Rightarrow> (Failure GoalNotFound (NoGoalWithId goalId), st)
      | Some goal \<Rightarrow>
          if amount \<le> 0 then (Failure InvalidAmount WithdrawalMustBePositive, st)
          else if amount > g_currentAmount goal
          then (Failure InsufficientFunds (OnlyAvailable (g_currentAmount goal)), st)
          else
            let contribution = \<lparr>c_id = ''contrib_'' @ take 8 uuid, c_amount = - amount,
                                c_date = formatDateISO (now e),
                                c_note = Some (case note of None \<Rightarrow> ''Withdrawal''
                                               | Some n \<Rightarrow> if n = [] then ''Withdrawal''
                                                           else ''Withdrawal: '' @ n)\<rparr>;
                newCurrentAmount = g_currentAmount goal - amount;
                st' = updateGoal e st goalId newCurrentAmount False
                        (g_contributions goal @ [contribution])
            in (case getGoalById st' goalId of
                  None \<Rightarrow> (Failure GoalNotFound (NoGoalWithId goalId), st')
                | Some updated \<Rightarrow> (Success updated (Withdrew amount (g_name goal)), st')))"



text \<open>Sequences of goal operations, each with the clock reading and identifier it draws.\<close>

datatype goal_op =
    OpCreate env string GoalData
  | OpContribute env string string real "string option"
  | OpWithdraw env string string real "string option"

fun apply_op :: "storage \<Rightarrow> goal_op \<Rightarrow> storage" where
  "apply_op st (OpCreate e uuid d) = snd (createGoal e uuid st d)"
| "apply_op st (OpContribute e uuid gid a n) = snd (addContribution e uuid st gid a n)"
| "apply_op st (OpWithdraw e uuid gid a n) = snd (withdrawFromGoal e uuid st gid a n)"

definition run_ops :: "storage \<Rightarrow> goal_op list \<Rightarrow> storage" where
  "run_ops st ops = foldl apply_op st ops"


text \<open>Concrete data for the examples.\<close>

definition emptyStorage :: storage where
  "emptyStorage = \<lparr>transactions = [], budgets = [], goals = []\<rparr>"

definition env0 :: env where
  "env0 = \<lparr>now = 1700000000000, tz = 0\<rparr>"

definition holidayData :: GoalData where
  "holidayData = \<lparr>d_name = ''Holiday'', d_description = None, d_targetAmount = 1000,
     d_currentAmount = Some 900, d_deadline = None, d_priority = None\<rparr>"

definition holidayOps :: "goal_op list" where
  "holidayOps = [OpCreate env0 ''0a1b2c3d-0000'' holidayData,
                 OpContribute env0 ''4e5f6a7b-0000'' ''goal_0a1b2c3d'' 150 None]"

definition bikeData :: GoalData where
  "bikeData = \<lparr>d_name = ''Bike'', d_description = None, d_targetAmount = 1000,
     d_currentAmount = None, d_deadline = Some ''2026-12-31'', d_priority = Some high\<rparr>"

definition bikeOps :: "goal_op list" where
  "bikeOps = [OpCreate env0 ''11112222-0000'' bikeData,
              OpContribute env0 ''33334444-0000'' ''goal_11112222'' 1500 None,
              OpWithdraw env0 ''55556666-0000'' ''goal_11112222'' 100 (Some ''repairs'')]"

definition bikeGoal :: SavingsGoal where
  "bikeGoal = \<lparr>g_id = ''goal_11112222'', g_name = ''Bike'', g_description = None,
     g_targetAmount = 1000, g_currentAmount = 100, g_deadline = None, g_priority = medium,
     g_contributions = [\<lparr>c_id = ''contrib_33334444'', c_amount = 100, c_date = 19675,
                         c_note = None\<rparr>],
     g_isCompleted = False, g_createdAt = 1700000000000, g_updatedAt = 1700000000000\<rparr>"

definition bikeStorage :: storage where
  "bikeStorage = \<lparr>transactions = [], budgets = [], goals = [bikeGoal]\<rparr>"

section \<open>Budget engine\<close>

datatype StatusKind = under | warning | exceeded

record BudgetStatus =
  bs_budgetId :: string
  bs_budgetName :: string
  bs_category :: string
  bs_limit :: real
  bs_spent :: real
  bs_remaining :: real
  bs_percentageUsed :: real
  bs_status :: StatusKind

definition getPeriodRange :: "env \<Rightarrow> BudgetPeriod \<Rightarrow> instant \<times> instant" where
  "getPeriodRange e period =
     (case period of
        daily \<Rightarrow> (startOfDay e (now e), endOfDay e (now e))
      | weekly \<Rightarrow> (startOfWeek e (now e), endOfWeek e (now e))
      | monthly \<Rightarrow> (startOfMonth e (now e), endOfMonth e (now e))
      | yearly \<Rightarrow> (startOfYear e (now e), endOfYear e (now e)))"

definition calculateBudgetStatus :: "env \<Rightarrow> storage \<Rightarrow> Budget \<Rightarrow> BudgetStatus" where
  "calculateBudgetStatus e st budget =
     (let range = getPeriodRange e (b_period budget);
          txs = filter (\<lambda>t. t_type t = expense
                            \<and> toLowerCase (t_category t) = toLowerCase (b_category budget)
                            \<and> isWithinInterval (dateOfIso (t_date t)) range)
                       (transactions st);
          spent = foldl (\<lambda>sum t. sum + t_amount t) 0 txs;
          remaining = max 0 (b_limit budget - spent);
          percentageUsed = (if b_limit budget > 0 then spent / b_limit budget * 100 else 0);
          status = (if percentageUsed \<ge> 100 then exceeded
                    else if percentageUsed \<ge> b_alertThreshold budget * 100 then warning
                    else under)
      in \<lparr>bs_budgetId = b_id budget,
          bs_budgetName = b_name budget,
          bs_category = b_category budget,
          bs_limit = b_limit budget,
          bs_spent = spent,
          bs_remaining = remaining,
          bs_percentageUsed = percentageUsed,
          bs_status = status\<rparr>)"

definition getBudgetStatus :: "env \<Rightarrow> storage \<Rightarrow> BudgetStatus list" where
  "getBudgetStatus e st = map (calculateBudgetStatus e st) (filter b_isActive (budgets st))"

text \<open>
  The transactions a budget counts: expenses of the budget's category, compared without
  regard to case, whose date falls within the current window of the budget's period,
  both ends included.
\<close>

definition countsToward :: "env \<Rightarrow> Budget \<Rightarrow> Transaction \<Rightarrow> bool" where
  "countsToward e budget t =
     (t_type t = expense
      \<and> toLowerCase (t_category t) = toLowerCase (b_category budget)
      \<and> fst (getPeriodRange e (b_period budget)) \<le> dateOfIso (t_date t)
      \<and> dateOfIso (t_date t) \<le> snd (getPeriodRange e (b_period budget)))"

definition foodBudget :: Budget where
  "foodBudget = \<lparr>b_id = ''budget_00000001'', b_name = ''Food'', b_category = ''Food & Dining'',
     b_limit = 500, b_spent = 0, b_period = monthly, b_alertThreshold = 8 / 10,
     b_startDate = 19662, b_isActive = True\<rparr>"

definition mkTx :: "string \<Rightarrow> TransactionType \<Rightarrow> real \<Rightarrow> string \<Rightarrow> isodate \<Rightarrow> Transaction" where
  "mkTx i ty a c d = \<lparr>t_id = i, t_type = ty, t_amount = a, t_category = c,
                      t_description = c, t_date = d\<rparr>"

definition foodStorage :: storage where
  "foodStorage = \<lparr>transactions =
      [mkTx ''t1'' expense 200 ''Food & Dining'' 19662,
       mkTx ''t2'' income 3000 ''Salary'' 19663,
       mkTx ''t3'' expense 250 ''food & dining'' 19691,
       mkTx ''t4'' expense 75 ''Food & Dining'' 19661,
       mkTx ''t5'' expense 40 ''Transportation'' 19670,
       mkTx ''t6'' expense 60 ''Food & Dining'' 19692],
     budgets = [foodBudget], goals = []\<rparr>"

section \<open>Analytics engine\<close>

subsection \<open>Intervals of days, weeks and months\<close>

text \<open>
  \<open>setHours(h)\<close> keeps the minutes, seconds and milliseconds; \<open>addWeeks\<close> adds seven
  days a week; \<open>setMonth(m)\<close> keeps the day of the month and the time of day.
\<close>

definition HOUR :: int where
  "HOUR = 3600000"

definition setHours :: "env \<Rightarrow> instant \<Rightarrow> int \<Rightarrow> instant" where
  "setHours e t h = localInstant e (localDay e t) (h * HOUR + msOfDay e t mod HOUR)"

definition addWeeks :: "instant \<Rightarrow> int \<Rightarrow> instant" where
  "addWeeks t n = addDays t (n * 7)"

definition setMonth :: "env \<Rightarrow> instant \<Rightarrow> int \<Rightarrow> instant" where
  "setMonth e t mi = localInstant e (makeDay (getFullYear e t) mi (getDate e t)) (msOfDay e t)"

text \<open>
  The loop of \<open>eachDayOfInterval\<close>: push the current day, step to the next local
  midnight.
\<close>

function eachDayLoop :: "env \<Rightarrow> instant \<Rightarrow> instant \<Rightarrow> instant list" where
  "eachDayLoop e currentDate endTime =
     (if currentDate \<le> endTime
      then currentDate # eachDayLoop e (startOfDay e (addDays currentDate 1)) endTime
      else [])"
  by pat_completeness auto

text \<open>
  \<open>eachDayOfInterval\<close> (date-fns 3 and later, where an interval that starts after its
  end gives the days in reverse; earlier versions throw on such an interval).
\<close>

definition eachDayOfInterval :: "env \<Rightarrow> instant \<times> instant \<Rightarrow> instant list" where
  "eachDayOfInterval e interval =
     (let reversed = (fst interval > snd interval);
          endTime = (if reversed then fst interval else snd interval);
          currentDate = startOfDay e (if reversed then snd interval else fst interval);
          dates = eachDayLoop e currentDate endTime
      in if reversed then rev dates else dates)"

text \<open>
  The loop of \<open>eachWeekOfInterval\<close>: the loop variable sits at 15:00 of a week's first
  day; each round pushes that day's midnight and moves a week on.
\<close>

function eachWeekLoop :: "env \<Rightarrow> instant \<Rightarrow> instant \<Rightarrow> instant list" where
  "eachWeekLoop e currentDate endTime =
     (if currentDate \<le> endTime
      then setHours e currentDate 0
           # eachWeekLoop e (setHours e (addWeeks (setHours e currentDate 0) 1) 15) endTime
      else [])"
  by pat_completeness auto

definition eachWeekOfInterval :: "env \<Rightarrow> instant \<times> instant \<Rightarrow> instant list" where
  "eachWeekOfInterval e interval =
     (let reversed = (fst interval > snd interval);
          startDateWeek = startOfWeek e (if reversed then snd interval else fst interval);
          endDateWeek = startOfWeek e (if reversed then fst interval else snd interval);
          endTime = setHours e endDateWeek 15;
          dates = eachWeekLoop e (setHours e startDateWeek 15) endTime
      in if reversed then rev dates else dates)"

text \<open>
  The loop of \<open>eachMonthOfInterval\<close>: push the current first of the month, step with
  \<open>setMonth(getMonth() + 1)\<close>.  The result is \<open>None\<close> should the loop not end.
\<close>

partial_function (option) eachMonthLoop ::
  "env \<Rightarrow> instant \<Rightarrow> instant \<Rightarrow> instant list \<Rightarrow> instant list option" where
  "eachMonthLoop e currentDate endTime dates =
     (if currentDate \<le> endTime
      then eachMonthLoop e (setMonth e currentDate (getMonth e currentDate + 1)) endTime
             (dates @ [currentDate])
      else Some dates)"

declare eachMonthLoop.simps [code]

definition eachMonthOfInterval :: "env \<Rightarrow> instant \<times> instant \<Rightarrow> instant list option" where
  "eachMonthOfInterval e interval =
     (let reversed = (fst interval > snd interval);
          endTime = (if reversed then fst interval else snd interval);
          currentDate = startOfMonth e (if reversed then snd interval else fst interval)
      in map_option (\<lambda>dates. if reversed then rev dates else dates)
           (eachMonthLoop e currentDate endTime []))"

subsection \<open>Summaries\<close>

record CategoryTotal =
  ct_category :: string
  ct_total :: real
  ct_count :: nat
  ct_percentage :: real

record SpendingSummary =
  s_totalExpenses :: real
  s_totalIncome :: real
  s_netSavings :: real
  s_expensesByCategory :: "CategoryTotal list"
  s_incomeByCategory :: "CategoryTotal list"
  s_period :: "isodate \<times> isodate"

text \<open>
  The object used as a map from category to running total and count: an association
  list in insertion order, which is the order \<open>Object.entries\<close> lists string keys in.
  (Keys that look like array indices, which a JavaScript object lists first, and keys
  that name members of \<open>Object.prototype\<close> are left out of account.)
\<close>

fun bump :: "string \<Rightarrow> real \<Rightarrow> (string \<times> real \<times> nat) list \<Rightarrow> (string \<times> real \<times> nat) list" where
  "bump k a [] = [(k, 0 + a, 0 + 1)]"
| "bump k a ((k', tot, cnt) # m) =
     (if k' = k then (k', tot + a, cnt + 1) # m else (k', tot, cnt) # bump k a m)"

text \<open>
  \<open>Array.prototype.sort\<close> with the comparator \<open>(a, b) => key(b) - key(a)\<close>: a stable
  sort into descending order of the key.
\<close>

fun insertDesc :: "('a \<Rightarrow> real) \<Rightarrow> 'a \<Rightarrow> 'a list \<Rightarrow> 'a list" where
  "insertDesc key x [] = [x]"
| "insertDesc key x (y # ys) = (if key y < key x then x # y # ys else y # insertDesc key x ys)"

definition sortDesc :: "('a \<Rightarrow> real) \<Rightarrow> 'a list \<Rightarrow> 'a list" where
  "sortDesc key xs = foldl (\<lambda>acc x. insertDesc key x acc) [] xs"

definition calculateCategoryTotals :: "Transaction list \<Rightarrow> real \<Rightarrow> CategoryTotal list" where
  "calculateCategoryTotals txs grandTotal =
     (let categoryMap = foldl (\<lambda>m t. bump (t_category t) (t_amount t) m) [] txs
      in sortDesc ct_total
           (map (\<lambda>(category, tot, cnt).
                   \<lparr>ct_category = category, ct_total = tot, ct_count = cnt,
                    ct_percentage = (if grandTotal > 0 then tot / grandTotal * 100 else 0)\<rparr>)
                categoryMap))"

definition getTransactionsInRange :: "storage \<Rightarrow> instant \<times> instant \<Rightarrow> Transaction list" where
  "getTransactionsInRange st dateRange =
     filter (\<lambda>t. isWithinInterval (dateOfIso (t_date t)) dateRange) (transactions st)"

definition getCurrentMonthRange :: "env \<Rightarrow> instant \<times> instant" where
  "getCurrentMonthRange e = (startOfMonth e (now e), endOfMonth e (now e))"

definition getLastMonthRange :: "env \<Rightarrow> instant \<times> instant" where
  "getLastMonthRange e =
     (let lastMonth = subMonths e (now e) 1
      in (startOfMonth e lastMonth, endOfMonth e lastMonth))"

definition getSpendingSummary :: "env \<Rightarrow> storage \<Rightarrow> (instant \<times> instant) option \<Rightarrow> SpendingSummary" where
  "getSpendingSummary e st dateRange =
     (let range = (case dateRange of None \<Rightarrow> getCurrentMonthRange e | Some r \<Rightarrow> r);
          txs = getTransactionsInRange st range;
          expenses = filter (\<lambda>t. t_type t = expense) txs;
          incomes = filter (\<lambda>t. t_type t = income) txs;
          totalExpenses = foldl (\<lambda>sum t. sum + t_amount t) 0 expenses;
          totalIncome = foldl (\<lambda>sum t. sum + t_amount t) 0 incomes
      in \<lparr>s_totalExpenses = totalExpenses,
          s_totalIncome = totalIncome,
          s_netSavings = totalIncome - totalExpenses,
          s_expensesByCategory = calculateCategoryTotals expenses totalExpenses,
          s_incomeByCategory = calculateCategoryTotals incomes totalIncome,
          s_period = (formatDateISO (fst range), formatDateISO (snd range))\<rparr>)"

subsection \<open>Trends\<close>

datatype TrendLabel = DayLabel isodate | MonthLabel int int

record TrendData =
  td_date :: TrendLabel
  td_expenses :: real
  td_income :: real
  td_netSavings :: real

definition trendPoint :: "TrendLabel \<Rightarrow> Transaction list \<Rightarrow> TrendData" where
  "trendPoint label txs =
     (let expenses = foldl (\<lambda>sum t. sum + t_amount t) 0 (filter (\<lambda>t. t_type t = expense) txs);
          incomes = foldl (\<lambda>sum t. sum + t_amount t) 0 (filter (\<lambda>t. t_type t = income) txs)
      in \<lparr>td_date = label, td_expenses = expenses, td_income = incomes,
          td_netSavings = incomes - expenses\<rparr>)"

definition getDailyTrends :: "env \<Rightarrow> storage \<Rightarrow> int \<Rightarrow> TrendData list" where
  "getDailyTrends e st days =
     (let endDate = now e;
          startDate = addDays (now e) (- days);
          dates = eachDayOfInterval e (startDate, endDate)
      in map (\<lambda>date.
                let dateStr = formatLocalDate e date;
                    dayTx = filter (\<lambda>t. t_date t = dateStr) (transactions st)
                in trendPoint (DayLabel dateStr) dayTx)
             dates)"

definition getWeeklyTrends :: "env \<Rightarrow> storage \<Rightarrow> int \<Rightarrow> TrendData list" where
  "getWeeklyTrends e st weeks =
     (let endDate = now e;
          startDate = addDays (now e) (- (weeks * 7));
          weekStarts = eachWeekOfInterval e (startDate, endDate)
      in map (\<lambda>weekStart.
                let weekEnd = endOfWeek e weekStart;
                    weekTx = filter (\<lambda>t. isWithinInterval (dateOfIso (t_date t)) (weekStart, weekEnd))
                               (transactions st)
                in trendPoint (DayLabel (formatLocalDate e weekStart)) weekTx)
             weekStarts)"

definition getMonthlyTrends :: "env \<Rightarrow> storage \<Rightarrow> int \<Rightarrow> TrendData list option" where
  "getMonthlyTrends e st months =
     (let endDate = now e;
          startDate = subMonths e endDate months
      in map_option
           (map (\<lambda>monthStart.
                   let monthEnd = endOfMonth e monthStart;
                       monthTx = filter (\<lambda>t. isWithinInterval (dateOfIso (t_date t))
                                                (monthStart, monthEnd))
                                   (transactions st)
                   in trendPoint (MonthLabel (getFullYear e monthStart) (getMonth e monthStart + 1))
                        monthTx))
           (eachMonthOfInterval e (startDate, endDate)))"

subsection \<open>Comparison with the previous month\<close>

record Comparison =
  cmp_expenseChange :: real
  cmp_incomeChange :: real
  cmp_savingsChange :: real
  cmp_topIncreases :: "(string \<times> real) list"
  cmp_topDecreases :: "(string \<times> real) list"

text \<open>\<open>new Set(xs)\<close>, iterated: the distinct elements in order of first occurrence.\<close>

definition newSet :: "'a list \<Rightarrow> 'a list" where
  "newSet xs = foldl (\<lambda>s x. if x \<in> set s then s else s @ [x]) [] xs"

text \<open>\<open>xs.find(c => c.category === cat)?.total || 0\<close>.\<close>

definition totalOf :: "CategoryTotal list \<Rightarrow> string \<Rightarrow> real" where
  "totalOf cs cat = (case find (\<lambda>c. ct_category c = cat) cs of None \<Rightarrow> 0 | Some c \<Rightarrow> ct_total c)"

definition categoryChanges :: "SpendingSummary \<Rightarrow> SpendingSummary \<Rightarrow> (string \<times> real) list" where
  "categoryChanges currentMonth lastMonth =
     (let allCategories = newSet (map ct_category (s_expensesByCategory currentMonth)
                                   @ map ct_category (s_expensesByCategory lastMonth))
      in map (\<lambda>cat. (cat, totalOf (s_expensesByCategory currentMonth) cat
                           - totalOf (s_expensesByCategory lastMonth) cat))
             allCategories)"

definition compareToLastMonth :: "env \<Rightarrow> storage \<Rightarrow> Comparison" where
  "compareToLastMonth e st =
     (let currentMonth = getSpendingSummary e st (Some (getCurrentMonthRange e));
          lastMonth = getSpendingSummary e st (Some (getLastMonthRange e));
          changes = sortDesc snd (categoryChanges currentMonth lastMonth)
      in \<lparr>cmp_expenseChange = s_totalExpenses currentMonth - s_totalExpenses lastMonth,
          cmp_incomeChange = s_totalIncome currentMonth - s_totalIncome lastMonth,
          cmp_savingsChange = s_netSavings currentMonth - s_netSavings lastMonth,
          cmp_topIncreases = take 3 (filter (\<lambda>c. snd c > 0) changes),
          cmp_topDecreases = take 3 (filter (\<lambda>c. snd c < 0) changes)\<rparr>)"

definition fallStorage :: storage where
  "fallStorage = \<lparr>transactions =
      [mkTx ''f1'' expense 400 ''Rent'' 19632,
       mkTx ''f2'' expense 30 ''Fun'' 19640,
       mkTx ''f3'' expense 20 ''Cafe'' 19650,
       mkTx ''f4'' expense 10 ''Bus'' 19660],
     budgets = [], goals = []\<rparr>"

section \<open>Natural-language extractor\<close>

subsection \<open>Regular expressions\<close>

text \<open>
  The fragment of JavaScript regular expressions the extractor uses.  Repetition
  (\<open>*\<close>, \<open>+\<close>, \<open>{m,n}\<close>) only ever applies to a character class, so \<open>Rep\<close>
  takes a class with its least and greatest count.  \<open>LitI\<close> is a literal under the
  \<open>i\<close> flag, written in lower case.
\<close>

datatype rx =
    Cls "char \<Rightarrow> bool"
  | Lit string
  | LitI string
  | Seq rx rx
  | Alt rx rx
  | Opt rx
  | Rep "char \<Rightarrow> bool" nat "nat option"
  | Grp nat rx
  | WordB

text \<open>
  A position in the input: the character before it (for \<open>\b\<close>), the input from it
  on, and the groups captured so far, the latest first.
\<close>

type_synonym mstate = "char option \<times> string \<times> (nat \<times> string) list"

definition consume :: "nat \<Rightarrow> mstate \<Rightarrow> mstate" where
  "consume n st =
     (case st of (prev, rest, caps) \<Rightarrow>
        (if n = 0 then prev else Some (rest ! (n - 1)), drop n rest, caps))"

definition wordBefore :: "char option \<Rightarrow> bool" where
  "wordBefore prev = (case prev of None \<Rightarrow> False | Some c \<Rightarrow> isWord c)"

definition wordAt :: "string \<Rightarrow> bool" where
  "wordAt rest = (case rest of [] \<Rightarrow> False | c # cs \<Rightarrow> isWord c)"

text \<open>
  All the ways the expression matches at a position, in the order a backtracking
  matcher tries them: the first is the match JavaScript reports.  Repetition and
  \<open>?\<close> are greedy.
\<close>

fun rmatch :: "rx \<Rightarrow> mstate \<Rightarrow> mstate list" where
  "rmatch (Cls p) st =
     (case st of (prev, rest, caps) \<Rightarrow>
        (case rest of [] \<Rightarrow> [] | c # cs \<Rightarrow> if p c then [(Some c, cs, caps)] else []))"
| "rmatch (Lit k) st =
     (if startsWith (fst (snd st)) k then [consume (length k) st] else [])"
| "rmatch (LitI k) st =
     (if startsWith (map lowerChar (take (length k) (fst (snd st)))) k
      then [consume (length k) st] else [])"
| "rmatch (Seq a b) st = concat (map (rmatch b) (rmatch a st))"
| "rmatch (Alt a b) st = rmatch a st @ rmatch b st"
| "rmatch (Opt a) st = rmatch a st @ [st]"
| "rmatch (Rep p lo hi) st =
     (let run = length (takeWhile p (fst (snd st)));
          most = (case hi of None \<Rightarrow> run | Some h \<Rightarrow> min run h)
      in map (\<lambda>n. consume n st) (rev [lo ..< most + 1]))"
| "rmatch (Grp i a) st =
     map (\<lambda>st'. (fst st', fst (snd st'),
                  (i, take (length (fst (snd st)) - length (fst (snd st'))) (fst (snd st)))
                  # snd (snd st')))
         (rmatch a st)"
| "rmatch WordB st =
     (if wordBefore (fst st) \<noteq> wordAt (fst (snd st)) then [st] else [])"

text \<open>\<open>input.match(r)\<close> without the \<open>g\<close> flag: the leftmost match.\<close>

fun matchFrom :: "rx \<Rightarrow> char option \<Rightarrow> string \<Rightarrow> mstate option" where
  "matchFrom r prev [] = (case rmatch r (prev, [], []) of [] \<Rightarrow> None | m # ms \<Rightarrow> Some m)"
| "matchFrom r prev (c # cs) =
     (case rmatch r (prev, c # cs, []) of
        [] \<Rightarrow> matchFrom r (Some c) cs
      | m # ms \<Rightarrow> Some m)"

definition matchRx :: "string \<Rightarrow> rx \<Rightarrow> mstate option" where
  "matchRx input r = matchFrom r None input"

text \<open>\<open>match[i]\<close>: \<open>None\<close> is \<open>undefined\<close>, a group that took no part.\<close>

definition group :: "mstate \<Rightarrow> nat \<Rightarrow> string option" where
  "group m i = map_of (snd (snd m)) i"

text \<open>
  \<open>input.replace(r, repl)\<close> with the \<open>g\<close> flag.  \<open>skip\<close> counts the characters of
  the match in progress that are still to be dropped.
\<close>

fun replaceGo :: "rx \<Rightarrow> string \<Rightarrow> nat \<Rightarrow> char option \<Rightarrow> string \<Rightarrow> string" where
  "replaceGo r repl skip prev [] =
     (if skip = 0 \<and> rmatch r (prev, [], []) \<noteq> [] then repl else [])"
| "replaceGo r repl skip prev (c # cs) =
     (if skip > 0 then replaceGo r repl (skip - 1) (Some c) cs
      else (case rmatch r (prev, c # cs, []) of
              [] \<Rightarrow> c # replaceGo r repl 0 (Some c) cs
            | m # ms \<Rightarrow>
                (let n = length (c # cs) - length (fst (snd m))
                 in if n = 0 then repl @ c # replaceGo r repl 0 (Some c) cs
                    else repl @ replaceGo r repl (n - 1) (Some c) cs)))"

definition replaceAll :: "string \<Rightarrow> rx \<Rightarrow> string \<Rightarrow> string" where
  "replaceAll input r repl = replaceGo r repl 0 None input"

text \<open>Shorthands: \<open>\s*\<close>, \<open>\s+\<close>, alternatives of literals, sequences.\<close>

definition ws0 :: rx where
  "ws0 = Rep isSpace 0 None"

definition ws1 :: rx where
  "ws1 = Rep isSpace 1 None"

fun alts :: "rx list \<Rightarrow> rx" where
  "alts [] = Alt (Lit []) (Lit [])"
| "alts [r] = r"
| "alts (r # rs) = Alt r (alts rs)"

fun seqs :: "rx list \<Rightarrow> rx" where
  "seqs [] = Lit []"
| "seqs [r] = r"
| "seqs (r # rs) = Seq r (seqs rs)"

subsection \<open>The pipeline\<close>

record ParsedTransaction =
  p_type :: TransactionType
  p_amount :: real
  p_category :: string
  p_description :: string
  p_date :: isodate
  p_confidence :: real
  p_rawInput :: string

definition EXPENSE_KEYWORDS :: "string list" where
  "EXPENSE_KEYWORDS =
     [''spent'', ''paid'', ''bought'', ''purchased'', ''cost'', ''charged'',
      ''expense'', ''bill'', ''payment'', ''subscription'', ''fee'']"

definition INCOME_KEYWORDS :: "string list" where
  "INCOME_KEYWORDS =
     [''received'', ''earned'', ''got'', ''income'', ''salary'', ''wage'',
      ''payment from'', ''refund'', ''bonus'', ''commission'', ''dividend'']"

definition determineTransactionType :: "string \<Rightarrow> TransactionType option" where
  "determineTransactionType input =
     (let hasExpense = list_ex (includesStr input) EXPENSE_KEYWORDS;
          hasIncome = list_ex (includesStr input) INCOME_KEYWORDS
      in if hasIncome \<and> \<not> hasExpense then Some income
         else if hasExpense \<and> \<not> hasIncome then Some expense
         else if hasExpense \<and> hasIncome then Some expense
         else if includesStr input ''from'' then Some income
         else if includesStr input ''on'' \<or> includesStr input ''for'' then Some expense
         else None)"

text \<open>
  \<open>parseFloat\<close> on the strings the amount patterns capture: digits, then possibly a
  point and digits.  \<open>None\<close> is \<open>NaN\<close>.
\<close>

definition parseFloat :: "string \<Rightarrow> real option" where
  "parseFloat s =
     (let ip = takeWhile isDigit s;
          r = dropWhile isDigit s;
          fp = (case r of [] \<Rightarrow> [] | c # cs \<Rightarrow> if c = CHR ''.'' then takeWhile isDigit cs else [])
      in if ip = [] \<and> fp = [] then None
         else Some (real (parseDigits ip) + real (parseDigits fp) / 10 ^ length fp))"

text \<open>\<open>[\d,]+(?:\.\d{2})?\<close> and \<open>\d+(?:\.\d{2})?\<close>.\<close>

definition amountRx :: rx where
  "amountRx = Seq (Rep (\<lambda>c. isDigit c \<or> c = CHR '','') 1 None)
                  (Opt (Seq (Lit ''.'') (Rep isDigit 2 (Some 2))))"

definition numberRx :: rx where
  "numberRx = Seq (Rep isDigit 1 None) (Opt (Seq (Lit ''.'') (Rep isDigit 2 (Some 2))))"

definition amountPatterns :: "rx list" where
  "amountPatterns =
     [seqs [Lit ''$'', ws0, Grp 1 amountRx],
      seqs [Grp 1 amountRx, ws0, Lit ''$''],
      seqs [Grp 1 amountRx, ws0,
            alts [Seq (LitI ''dollar'') (Opt (LitI ''s'')), LitI ''usd'', LitI ''bucks'']],
      seqs [alts [LitI ''spent'', LitI ''paid'', LitI ''received'', LitI ''got'', LitI ''earned''],
            ws0, Opt (Lit ''$''), ws0, Grp 1 amountRx],
      seqs [Grp 1 amountRx, ws0, alts [LitI ''for'', LitI ''on'']]]"

text \<open>One round of the loop over the patterns: the number a pattern yields, if any.\<close>

definition tryPattern :: "string \<Rightarrow> rx \<Rightarrow> real option" where
  "tryPattern input pattern =
     (case matchRx input pattern of
        None \<Rightarrow> None
      | Some m \<Rightarrow>
          (case group m 1 of
             None \<Rightarrow> None
           | Some captured \<Rightarrow>
               (case parseFloat (filter (\<lambda>c. c \<noteq> CHR '','') captured) of
                  None \<Rightarrow> None
                | Some num \<Rightarrow> if num > 0 then Some num else None)))"

fun firstAmount :: "string \<Rightarrow> rx list \<Rightarrow> real option" where
  "firstAmount input [] = None"
| "firstAmount input (pattern # patterns) =
     (case tryPattern input pattern of
        Some num \<Rightarrow> Some num
      | None \<Rightarrow> firstAmount input patterns)"

definition anyNumber :: "string \<Rightarrow> real option" where
  "anyNumber input =
     (case matchRx input (Grp 1 numberRx) of
        None \<Rightarrow> None
      | Some m \<Rightarrow>
          (case group m 1 of
             None \<Rightarrow> None
           | Some captured \<Rightarrow>
               (case parseFloat captured of
                  None \<Rightarrow> None
                | Some num \<Rightarrow> if num > 0 then Some num else None)))"

definition extractAmount :: "string \<Rightarrow> real option" where
  "extractAmount input =
     (case firstAmount input amountPatterns of
        Some num \<Rightarrow> Some num
      | None \<Rightarrow> anyNumber input)"

definition CATEGORY_KEYWORDS :: "(string \<times> string list) list" where
  "CATEGORY_KEYWORDS =
     [(''Food & Dining'', [''food'', ''groceries'', ''grocery'', ''restaurant'', ''dinner'',
         ''lunch'', ''breakfast'', ''coffee'', ''meal'', ''eating'', ''snack'']),
      (''Transportation'', [''uber'', ''lyft'', ''taxi'', ''gas'', ''fuel'', ''bus'', ''train'',
         ''metro'', ''parking'', ''car'', ''transport'', ''ride'']),
      (''Shopping'', [''shopping'', ''clothes'', ''clothing'', ''amazon'', ''store'', ''mall'',
         ''shoes'', ''purchase'']),
      (''Bills & Utilities'', [''bill'', ''electricity'', ''electric'', ''water'', ''internet'',
         ''phone'', ''utility'', ''utilities'', ''rent'', ''mortgage'']),
      (''Entertainment'', [''movie'', ''netflix'', ''spotify'', ''gaming'', ''concert'',
         ''entertainment'', ''show'', ''theater'', ''music'']),
      (''Health & Fitness'', [''gym'', ''health'', ''medicine'', ''doctor'', ''pharmacy'',
         ''fitness'', ''workout'', ''medical'', ''hospital'']),
      (''Education'', [''education'', ''course'', ''book'', ''books'', ''training'', ''school'',
         ''tuition'', ''class'']),
      (''Subscriptions'', [''subscription'', ''monthly'', ''premium'', ''membership'', ''annual'']),
      (''Salary'', [''salary'', ''wage'', ''paycheck'', ''pay'']),
      (''Freelance'', [''freelance'', ''gig'', ''contract'', ''client'', ''project'']),
      (''Investments'', [''dividend'', ''interest'', ''investment'', ''stock'', ''crypto''])]"

fun categoryLoop :: "string \<Rightarrow> (string \<times> string list) list \<Rightarrow> string" where
  "categoryLoop input [] = ''Other Expenses''"
| "categoryLoop input ((category, keywords) # entries) =
     (if list_ex (includesStr input) keywords then category else categoryLoop input entries)"

definition extractCategory :: "string \<Rightarrow> string" where
  "extractCategory input = categoryLoop input CATEGORY_KEYWORDS"

text \<open>\<open>xs.indexOf(x)\<close>: the first index, or -1.\<close>

fun indexOf :: "'a list \<Rightarrow> 'a \<Rightarrow> int" where
  "indexOf [] x = - 1"
| "indexOf (y # ys) x = (if y = x then 0 else (let i = indexOf ys x in if i = - 1 then - 1 else i + 1))"

definition getMonthIndex :: "string \<Rightarrow> int" where
  "getMonthIndex monthName =
     (let months = [''january'', ''february'', ''march'', ''april'', ''may'', ''june'',
                    ''july'', ''august'', ''september'', ''october'', ''november'', ''december''];
          shortMonths = [''jan'', ''feb'', ''mar'', ''apr'', ''may'', ''jun'',
                         ''jul'', ''aug'', ''sep'', ''oct'', ''nov'', ''dec''];
          lower = toLowerCase monthName;
          index = indexOf months lower
      in if index = - 1 then indexOf shortMonths lower else index)"

text \<open>
  \<open>(?:on\s+)?(\w+)\s+(\d{1,2})(?:st|nd|rd|th)?(?:\s*,?\s*(\d{4}))?\<close> and
  \<open>(\d{1,2})[\/\-](\d{1,2})(?:[\/\-](\d{2,4}))?\<close>.
\<close>

definition monthPattern :: rx where
  "monthPattern =
     seqs [Opt (Seq (LitI ''on'') ws1),
           Grp 1 (Rep isWord 1 None), ws1,
           Grp 2 (Rep isDigit 1 (Some 2)),
           Opt (alts [LitI ''st'', LitI ''nd'', LitI ''rd'', LitI ''th'']),
           Opt (seqs [ws0, Opt (Lit '',''), ws0, Grp 3 (Rep isDigit 4 (Some 4))])]"

definition datePattern :: rx where
  "datePattern =
     seqs [Grp 1 (Rep isDigit 1 (Some 2)),
           Cls (\<lambda>c. c = CHR ''/'' \<or> c = CHR ''-''),
           Grp 2 (Rep isDigit 1 (Some 2)),
           Opt (Seq (Cls (\<lambda>c. c = CHR ''/'' \<or> c = CHR ''-'')) (Grp 3 (Rep isDigit 2 (Some 4))))]"

definition groupInt :: "mstate \<Rightarrow> nat \<Rightarrow> int" where
  "groupInt m i = (case group m i of None \<Rightarrow> 0 | Some s \<Rightarrow> int (parseDigits s))"

text \<open>The numeric date, the last resort before today.\<close>

definition numericDate :: "env \<Rightarrow> string \<Rightarrow> isodate" where
  "numericDate e input =
     (case matchRx input datePattern of
        Some dateMatch \<Rightarrow>
          (let month = groupInt dateMatch 1 - 1;
               day = groupInt dateMatch 2;
               year = (case group dateMatch 3 of
                         None \<Rightarrow> getFullYear e (now e)
                       | Some y \<Rightarrow> int (parseDigits y));
               year' = (if year < 100 then year + 2000 else year)
           in formatDateISO (newDate e year' month day))
      | None \<Rightarrow> formatDateISO (now e))"

definition extractDate :: "env \<Rightarrow> string \<Rightarrow> isodate" where
  "extractDate e input =
     (if includesStr input ''today'' then formatDateISO (now e)
      else if includesStr input ''yesterday'' then formatDateISO (addDays (now e) (- 1))
      else if includesStr input ''last week'' then formatDateISO (addDays (now e) (- 7))
      else (case matchRx input monthPattern of
              Some monthMatch \<Rightarrow>
                (let monthName = (case group monthMatch 1 of None \<Rightarrow> [] | Some s \<Rightarrow> s);
                     day = groupInt monthMatch 2;
                     year = (case group monthMatch 3 of
                               None \<Rightarrow> getFullYear e (now e)
                             | Some y \<Rightarrow> int (parseDigits y));
                     monthIndex = getMonthIndex monthName
                 in if monthIndex \<noteq> - 1 then formatDateISO (newDate e year monthIndex day)
                    else numericDate e input)
            | None \<Rightarrow> numericDate e input))"

text \<open>
  \<open>\b(spent|paid|received|got|earned|bought|for|on|at|from)\b\<close>, \<open>\$[\d,.]+\<close> and
  \<open>\s+\<close>.
\<close>

definition fillerWords :: rx where
  "fillerWords =
     seqs [WordB,
           alts [LitI ''spent'', LitI ''paid'', LitI ''received'', LitI ''got'', LitI ''earned'',
                 LitI ''bought'', LitI ''for'', LitI ''on'', LitI ''at'', LitI ''from''],
           WordB]"

definition moneyRx :: rx where
  "moneyRx = Seq (Lit ''$'') (Rep (\<lambda>c. isDigit c \<or> c = CHR '','' \<or> c = CHR ''.'') 1 None)"

definition extractDescription :: "string \<Rightarrow> string \<Rightarrow> string" where
  "extractDescription input category =
     (let desc = trim (replaceAll (replaceAll (replaceAll input fillerWords []) moneyRx []) ws1 '' '');
          desc' = (case desc of [] \<Rightarrow> [] | c # cs \<Rightarrow> upperChar c @ cs)
      in if desc' = [] then category else desc')"

definition calculateConfidence :: "env \<Rightarrow> real option \<Rightarrow> string \<Rightarrow> isodate \<Rightarrow> real" where
  "calculateConfidence e amount category date =
     (let c0 = 5 / 10;
          c1 = (case amount of None \<Rightarrow> c0 | Some a \<Rightarrow> if a > 0 then c0 + 2 / 10 else c0);
          c2 = (if category \<noteq> ''Other Expenses'' then c1 + 2 / 10 else c1);
          c3 = (if date \<noteq> formatDateISO (now e) then c2 + 1 / 10 else c2)
      in min 1 c3)"

definition parseNaturalLanguage :: "env \<Rightarrow> string \<Rightarrow> ParsedTransaction option" where
  "parseNaturalLanguage e input =
     (let normalized = trim (toLowerCase input)
      in case determineTransactionType normalized of
           None \<Rightarrow> None
         | Some type \<Rightarrow>
             (case extractAmount normalized of
                None \<Rightarrow> None
              | Some amount \<Rightarrow>
                  (let category = extractCategory normalized;
                       date = extractDate e normalized;
                       description = extractDescription normalized category
                   in Some \<lparr>p_type = type,
                            p_amount = amount,
                            p_category = category,
                            p_description = description,
                            p_date = date,
                            p_confidence = calculateConfidence e (Some amount) category date,
                            p_rawInput = input\<rparr>)))"


section \<open>Local days and the interval loops\<close>

lemma msOfDay_bounds: "0 \<le> msOfDay e t \<and> msOfDay e t < DAY"
  by (simp add: msOfDay_def DAY_def)

lemma localDay_localInstant:
  assumes "0 \<le> ms" and "ms < DAY"
  shows "localDay e (localInstant e dn ms) = dn"
proof -
  have "(dn * DAY + ms) div DAY = dn"
    using assms by (simp add: DAY_def div_pos_pos_trivial)
  then show ?thesis by (simp add: localDay_def localInstant_def)
qed

lemma localInstant_split: "localInstant e (localDay e t) (msOfDay e t) = t"
  by (simp add: localInstant_def localDay_def msOfDay_def)

lemma localDay_addDays: "localDay e (addDays t n) = localDay e t + n"
proof -
  have "(t + tz e + n * DAY) div DAY = (t + tz e) div DAY + n"
    by (simp add: DAY_def)
  then show ?thesis by (simp add: localDay_def addDays_def add.assoc add.commute add.left_commute)
qed

lemma before_next_day: "t < localInstant e (localDay e t + 1) ms" if "0 \<le> ms"
proof -
  have "t = localInstant e (localDay e t) (msOfDay e t)"
    by (simp add: localInstant_split)
  also have "\<dots> < localInstant e (localDay e t + 1) ms"
    using msOfDay_bounds[of e t] that by (simp add: localInstant_def algebra_simps)
  finally show ?thesis .
qed

lemma localInstant_mono_day:
  "localInstant e dn ms \<le> localInstant e dn' ms'" if "dn < dn'" "ms < DAY" "0 \<le> ms'"
proof -
  have "dn + 1 \<le> dn'" using that by simp
  then have "(dn + 1) * DAY \<le> dn' * DAY"
    by (simp add: DAY_def)
  then show ?thesis
    using that by (simp add: localInstant_def algebra_simps)
qed

text \<open>Both loops end: each round moves the loop variable to a later instant.\<close>

termination eachDayLoop
proof (relation "measure (\<lambda>(e, currentDate, endTime). nat (endTime - currentDate + 1))")
  show "wf (measure (\<lambda>(e, currentDate, endTime). nat (endTime - currentDate + 1)))"
    by simp
next
  fix e :: env and currentDate endTime :: instant
  assume "currentDate \<le> endTime"
  moreover have "currentDate < startOfDay e (addDays currentDate 1)"
    using before_next_day[of 0 currentDate e]
    by (simp add: startOfDay_def localDay_addDays)
  ultimately show "((e, startOfDay e (addDays currentDate 1), endTime), (e, currentDate, endTime))
       \<in> measure (\<lambda>(e, currentDate, endTime). nat (endTime - currentDate + 1))"
    by simp
qed

declare eachDayLoop.simps [simp del]

termination eachWeekLoop
proof (relation "measure (\<lambda>(e, currentDate, endTime). nat (endTime - currentDate + 1))")
  show "wf (measure (\<lambda>(e, currentDate, endTime). nat (endTime - currentDate + 1)))"
    by simp
next
  fix e :: env and currentDate endTime :: instant
  assume le: "currentDate \<le> endTime"
  have r: "0 \<le> x mod HOUR \<and> x mod HOUR < HOUR" for x
    by (simp add: HOUR_def)
  have d0: "localDay e (setHours e currentDate 0) = localDay e currentDate"
    unfolding setHours_def using r[of "msOfDay e currentDate"]
    by (intro localDay_localInstant) (simp_all add: HOUR_def DAY_def)
  have d7: "localDay e (addWeeks (setHours e currentDate 0) 1) = localDay e currentDate + 7"
    by (simp add: addWeeks_def localDay_addDays d0)
  have "currentDate < localInstant e (localDay e currentDate + 1) 0"
    by (rule before_next_day) simp
  also have "\<dots> \<le> localInstant e (localDay e currentDate + 7)
                     (15 * HOUR + msOfDay e (addWeeks (setHours e currentDate 0) 1) mod HOUR)"
    using r[of "msOfDay e (addWeeks (setHours e currentDate 0) 1)"]
    by (intro localInstant_mono_day) (simp_all add: DAY_def HOUR_def)
  also have "\<dots> = setHours e (addWeeks (setHours e currentDate 0) 1) 15"
    by (simp add: setHours_def[of e "addWeeks (setHours e currentDate 0) 1"] d7)
  finally show "((e, setHours e (addWeeks (setHours e currentDate 0) 1) 15, endTime),
                 (e, currentDate, endTime))
       \<in> measure (\<lambda>(e, currentDate, endTime). nat (endTime - currentDate + 1))"
    using le by simp
qed

declare eachWeekLoop.simps [simp del]

section \<open>Properties of the goals service\<close>


lemma find_updateFirst:
  "find P xs = Some g \<Longrightarrow> P (u g) \<Longrightarrow> find P (updateFirst P u xs) = Some (u g)"
  by (induction xs) (auto split: if_splits)


lemma getGoalById_updateGoal:
  assumes "getGoalById st gid = Some g"
  shows "getGoalById (updateGoal e st gid amt c ledger) gid
           = Some (g\<lparr>g_currentAmount := amt, g_isCompleted := c,
                     g_contributions := ledger, g_updatedAt := now e\<rparr>)"
proof -
  have f: "find (\<lambda>g. g_id g = gid) (goals st) = Some g"
    using assms by (simp add: getGoalById_def)
  then have "g_id g = gid"
    by (auto simp: find_Some_iff)
  then show ?thesis
    using find_updateFirst[OF f, of "\<lambda>g0. g0\<lparr>g_currentAmount := amt, g_isCompleted := c,
                       g_contributions := ledger, g_updatedAt := now e\<rparr>"]
    by (simp add: getGoalById_def updateGoal_def)
qed







text \<open>
  C9: a withdrawal of more than the goal holds changes nothing in the store (so the
  goal keeps its ledger, its amount and its flag) and returns a failure; for a goal
  whose amount is not negative, as the data model requires, the failure is the
  insufficient-funds one.
\<close>

theorem withdraw_insufficient_rejected:
  assumes "getGoalById st gid = Some g" and "amount > g_currentAmount g"
  shows "snd (withdrawFromGoal e uuid st gid amount note) = st
       \<and> getGoalById (snd (withdrawFromGoal e uuid st gid amount note)) gid = Some g
       \<and> (\<exists>m er. fst (withdrawFromGoal e uuid st gid amount note) = Failure m er)
       \<and> (0 \<le> g_currentAmount g \<longrightarrow>
            fst (withdrawFromGoal e uuid st gid amount note)
              = Failure InsufficientFunds (OnlyAvailable (g_currentAmount g)))"
proof (cases "amount \<le> 0")
  case True
  with assms show ?thesis by (simp add: withdrawFromGoal_def)
next
  case False
  with assms show ?thesis by (simp add: withdrawFromGoal_def)
qed

theorem withdraw_insufficient_rejected_witness:
  "getGoalById bikeStorage ''goal_11112222'' = Some bikeGoal
   \<and> (150::real) > g_currentAmount bikeGoal
   \<and> 0 \<le> g_currentAmount bikeGoal
   \<and> withdrawFromGoal env0 ''77778888'' bikeStorage ''goal_11112222'' 150 None
       = (Failure InsufficientFunds (OnlyAvailable 100), bikeStorage)"
proof -
  have g: "getGoalById bikeStorage ''goal_11112222'' = Some bikeGoal"
    by (simp add: getGoalById_def bikeStorage_def bikeGoal_def)
  have a: "(150::real) > g_currentAmount bikeGoal"
    by (simp add: bikeGoal_def)
  have c: "g_currentAmount bikeGoal = 100"
    by (simp add: bikeGoal_def)
  from withdraw_insufficient_rejected[OF g a, of env0 "''77778888''" None] g a c
  show ?thesis by (simp add: prod_eq_iff)
qed

text \<open>
  Every successful contribution leaves \<open>isCompleted\<close> equal to
  \<open>currentAmount \<ge> targetAmount\<close> on the stored goal.
\<close>

lemma addContribution_completed:
  assumes "getGoalById st gid = Some g" and "0 < a"
  shows "\<exists>g' m. addContribution e uuid st gid a n
                  = (Success g' m, updateGoal e st gid (g_currentAmount g + a)
                       (g_currentAmount g + a \<ge> g_targetAmount g)
                       (g_contributions g @ [\<lparr>c_id = ''contrib_'' @ take 8 uuid, c_amount = a,
                                               c_date = formatDateISO (now e), c_note = n\<rparr>]))
               \<and> g_currentAmount g' = g_currentAmount g + a
               \<and> g_isCompleted g' = (g_currentAmount g' \<ge> g_targetAmount g')"
  using assms getGoalById_updateGoal[OF assms(1)]
  by (simp add: addContribution_def Let_def)

text \<open>
  The contribution of 150 to the goal that holds 900 of its target of 1000 marks it
  completed.
\<close>

lemma holiday_completed:
  "map g_isCompleted (goals (run_ops emptyStorage holidayOps)) = [True]"
  by (simp add: run_ops_def holidayOps_def emptyStorage_def holidayData_def createGoal_def
      validateGoal_def addGoal_def addContribution_def getGoalById_def updateGoal_def Let_def)

text \<open>
  C5 at a withdrawal that leaves the goal above its target: a goal with target 1000 is
  created, receives 1500 (and is marked completed), then 100 is withdrawn.  The goal
  holds 1400, still above the target, and \<open>isCompleted\<close> is false.
\<close>

theorem withdraw_above_target_clears_completed:
  "map g_isCompleted (goals (run_ops emptyStorage (butlast bikeOps))) = [True]
   \<and> map g_currentAmount (goals (run_ops emptyStorage bikeOps)) = [1400]
   \<and> map g_targetAmount (goals (run_ops emptyStorage bikeOps)) = [1000]
   \<and> map g_isCompleted (goals (run_ops emptyStorage bikeOps)) = [False]"
  by (simp add: run_ops_def bikeOps_def emptyStorage_def bikeData_def createGoal_def
      validateGoal_def isValidDate_def isDigit_def charCode_def parseDigits_def digitVal_def
      addGoal_def addContribution_def withdrawFromGoal_def
      getGoalById_def updateGoal_def Let_def)

section \<open>Properties of the budget engine\<close>

lemma foldl_add_amount:
  "foldl (\<lambda>sum t. sum + f t) a xs = a + sum_list (map f xs)"
  for a :: real
  by (induction xs arbitrary: a) simp_all

lemma spent_sum:
  "bs_spent (calculateBudgetStatus e st budget)
     = sum_list (map t_amount (filter (countsToward e budget) (transactions st)))"
proof -
  have "(\<lambda>t. t_type t = expense
             \<and> toLowerCase (t_category t) = toLowerCase (b_category budget)
             \<and> isWithinInterval (dateOfIso (t_date t)) (getPeriodRange e (b_period budget)))
        = countsToward e budget"
    by (auto simp: countsToward_def isWithinInterval_def fun_eq_iff)
  then show ?thesis
    by (simp add: calculateBudgetStatus_def Let_def foldl_add_amount)
qed

text \<open>
  C1: the status record of every budget follows the status contract: the percentage
  with its guard, the three-way classification, and the remaining amount cut off at 0.
\<close>

theorem status_contract:
  "bs_percentageUsed (calculateBudgetStatus e st budget)
     = (if b_limit budget \<le> 0 then 0
        else bs_spent (calculateBudgetStatus e st budget) / b_limit budget * 100)
   \<and> (bs_status (calculateBudgetStatus e st budget) = exceeded
        \<longleftrightarrow> bs_percentageUsed (calculateBudgetStatus e st budget) \<ge> 100)
   \<and> (bs_status (calculateBudgetStatus e st budget) = warning
        \<longleftrightarrow> b_alertThreshold budget * 100 \<le> bs_percentageUsed (calculateBudgetStatus e st budget)
            \<and> bs_percentageUsed (calculateBudgetStatus e st budget) < 100)
   \<and> (bs_status (calculateBudgetStatus e st budget) = under
        \<longleftrightarrow> bs_percentageUsed (calculateBudgetStatus e st budget) < 100
            \<and> bs_percentageUsed (calculateBudgetStatus e st budget) < b_alertThreshold budget * 100)
   \<and> bs_remaining (calculateBudgetStatus e st budget)
       = max 0 (b_limit budget - bs_spent (calculateBudgetStatus e st budget))
   \<and> bs_remaining (calculateBudgetStatus e st budget) \<ge> 0"
  by (auto simp: calculateBudgetStatus_def Let_def)

lemma food_range:
  "getPeriodRange env0 monthly = (1698796800000, 1701388799999)"
  by code_simp

lemma food_counts:
  "filter (countsToward env0 foodBudget) (transactions foodStorage)
     = [mkTx ''t1'' expense 200 ''Food & Dining'' 19662,
        mkTx ''t3'' expense 250 ''food & dining'' 19691]"
  by code_simp
theorem status_contract_witness:
  "bs_spent (calculateBudgetStatus env0 foodStorage (foodBudget\<lparr>b_limit := 400\<rparr>)) = 450
   \<and> bs_percentageUsed (calculateBudgetStatus env0 foodStorage (foodBudget\<lparr>b_limit := 400\<rparr>)) = 112.5
   \<and> bs_status (calculateBudgetStatus env0 foodStorage (foodBudget\<lparr>b_limit := 400\<rparr>)) = exceeded
   \<and> bs_remaining (calculateBudgetStatus env0 foodStorage (foodBudget\<lparr>b_limit := 400\<rparr>)) = 0"
proof -
  have c: "countsToward env0 (foodBudget\<lparr>b_limit := 400\<rparr>) = countsToward env0 foodBudget"
    by (simp add: countsToward_def fun_eq_iff foodBudget_def)
  have s: "bs_spent (calculateBudgetStatus env0 foodStorage (foodBudget\<lparr>b_limit := 400\<rparr>)) = 450"
    by (simp add: spent_sum c food_counts mkTx_def)
  have l: "b_limit (foodBudget\<lparr>b_limit := 400\<rparr>) = 400"
    by simp
  from status_contract[of env0 foodStorage "foodBudget\<lparr>b_limit := 400\<rparr>"] s l
  show ?thesis by (simp add: max_def)
qed



section \<open>Properties of the analytics engine\<close>

lemma startOfDay_next:
  "startOfDay e (addDays (localInstant e dn 0) 1) = localInstant e (dn + 1) 0"
  by (simp add: startOfDay_def localDay_addDays localDay_localInstant DAY_def)

lemma localInstant_le_of_day_le:
  assumes "dn \<le> localDay e t"
  shows "localInstant e dn 0 \<le> t"
proof (cases "dn = localDay e t")
  case True
  have "localInstant e dn 0 \<le> localInstant e (localDay e t) (msOfDay e t)"
    using True msOfDay_bounds[of e t] by (simp add: localInstant_def)
  then show ?thesis by (simp add: localInstant_split)
next
  case False
  then have "dn < localDay e t" using assms by simp
  then have "localInstant e dn 0 \<le> localInstant e (localDay e t) (msOfDay e t)"
    using msOfDay_bounds[of e t] by (intro localInstant_mono_day) (simp_all add: DAY_def)
  then show ?thesis by (simp add: localInstant_split)
qed

lemma eachDayLoop_length:
  "localDay e endTime = dn + int k
     \<Longrightarrow> length (eachDayLoop e (localInstant e dn 0) endTime) = k + 1"
proof (induction k arbitrary: dn)
  case 0
  then have le: "localInstant e dn 0 \<le> endTime"
    by (intro localInstant_le_of_day_le) simp
  have gt: "\<not> localInstant e (dn + 1) 0 \<le> endTime"
    using before_next_day[of 0 endTime e] 0 by simp
  have "eachDayLoop e (localInstant e dn 0) endTime
          = localInstant e dn 0 # eachDayLoop e (localInstant e (dn + 1) 0) endTime"
    using le by (subst eachDayLoop.simps) (simp add: startOfDay_next)
  also have "eachDayLoop e (localInstant e (dn + 1) 0) endTime = []"
    using gt by (subst eachDayLoop.simps) simp
  finally show ?case by simp
next
  case (Suc k)
  then have le: "localInstant e dn 0 \<le> endTime"
    by (intro localInstant_le_of_day_le) simp
  have "localDay e endTime = (dn + 1) + int k"
    using Suc.prems by simp
  then have ih: "length (eachDayLoop e (localInstant e (dn + 1) 0) endTime) = k + 1"
    by (rule Suc.IH)
  have "eachDayLoop e (localInstant e dn 0) endTime
          = localInstant e dn 0 # eachDayLoop e (localInstant e (dn + 1) 0) endTime"
    using le by (subst eachDayLoop.simps) (simp add: startOfDay_next)
  then show ?case using ih by simp
qed

text \<open>
  For every span that is not negative the daily series has one point more than the
  span: the interval runs from the day \<open>days\<close> days back to today, both included.
\<close>

lemma getDailyTrends_length:
  assumes "0 \<le> days"
  shows "length (getDailyTrends e st days) = nat days + 1"
proof -
  have nr: "\<not> addDays (now e) (- days) > now e"
    using assms by (simp add: addDays_def DAY_def)
  have s: "startOfDay e (addDays (now e) (- days)) = localInstant e (localDay e (now e) - days) 0"
    by (simp add: startOfDay_def localDay_addDays)
  have "localDay e (now e) = (localDay e (now e) - days) + int (nat days)"
    using assms by simp
  then have "length (eachDayLoop e (localInstant e (localDay e (now e) - days) 0) (now e))
               = nat days + 1"
    by (rule eachDayLoop_length)
  then show ?thesis
    using nr by (simp add: getDailyTrends_def eachDayOfInterval_def Let_def s)
qed

text \<open>
  C3 at a span of 2 with no transactions stored: each of the three series has three
  points, not two.  The points are the zero-filled ones the claim describes; it is their
  number that is one too many.
\<close>

theorem trends_one_point_too_many:
  "getDailyTrends env0 emptyStorage 2
     = [\<lparr>td_date = DayLabel 19673, td_expenses = 0, td_income = 0, td_netSavings = 0\<rparr>,
        \<lparr>td_date = DayLabel 19674, td_expenses = 0, td_income = 0, td_netSavings = 0\<rparr>,
        \<lparr>td_date = DayLabel 19675, td_expenses = 0, td_income = 0, td_netSavings = 0\<rparr>]
   \<and> getWeeklyTrends env0 emptyStorage 2
     = [\<lparr>td_date = DayLabel 19659, td_expenses = 0, td_income = 0, td_netSavings = 0\<rparr>,
        \<lparr>td_date = DayLabel 19666, td_expenses = 0, td_income = 0, td_netSavings = 0\<rparr>,
        \<lparr>td_date = DayLabel 19673, td_expenses = 0, td_income = 0, td_netSavings = 0\<rparr>]
   \<and> getMonthlyTrends env0 emptyStorage 2
     = Some [\<lparr>td_date = MonthLabel 2023 9, td_expenses = 0, td_income = 0, td_netSavings = 0\<rparr>,
             \<lparr>td_date = MonthLabel 2023 10, td_expenses = 0, td_income = 0, td_netSavings = 0\<rparr>,
             \<lparr>td_date = MonthLabel 2023 11, td_expenses = 0, td_income = 0, td_netSavings = 0\<rparr>]"
  by code_simp

lemma sortDesc_Nil: "sortDesc key [] = []"
  by (simp add: sortDesc_def)

text \<open>
  The sort puts the larger key first and keeps every element.
\<close>

lemma insertDesc_set: "set (insertDesc key x xs) = insert x (set xs)"
  by (induction xs) auto

lemma insertDesc_sorted:
  "sorted_wrt (\<lambda>a b. key b \<le> key a) xs
     \<Longrightarrow> sorted_wrt (\<lambda>a b. key b \<le> key a) (insertDesc key x xs)"
  by (induction xs) (auto simp: insertDesc_set)

lemma sortDesc_fold_sorted:
  "sorted_wrt (\<lambda>a b. key b \<le> key a) acc
     \<Longrightarrow> sorted_wrt (\<lambda>a b. key b \<le> key a) (foldl (\<lambda>acc x. insertDesc key x acc) acc xs)"
  by (induction xs arbitrary: acc) (simp_all add: insertDesc_sorted)

lemma sortDesc_fold_set:
  "set (foldl (\<lambda>acc x. insertDesc key x acc) acc xs) = set acc \<union> set xs"
  by (induction xs arbitrary: acc) (simp_all add: insertDesc_set)

lemma sortDesc_sorted: "sorted_wrt (\<lambda>a b. key b \<le> key a) (sortDesc key xs)"
  unfolding sortDesc_def by (rule sortDesc_fold_sorted) simp

lemma sortDesc_set: "set (sortDesc key xs) = set xs"
  unfolding sortDesc_def by (simp add: sortDesc_fold_set)

text \<open>
  With no transaction in the current and in the previous month every change is 0 and
  both lists are empty.
\<close>

lemma compareToLastMonth_no_transactions:
  assumes "getTransactionsInRange st (getCurrentMonthRange e) = []"
    and "getTransactionsInRange st (getLastMonthRange e) = []"
  shows "compareToLastMonth e st
           = \<lparr>cmp_expenseChange = 0, cmp_incomeChange = 0, cmp_savingsChange = 0,
              cmp_topIncreases = [], cmp_topDecreases = []\<rparr>"
  using assms
  by (simp add: compareToLastMonth_def getSpendingSummary_def calculateCategoryTotals_def
      categoryChanges_def newSet_def sortDesc_def Let_def)

text \<open>
  C8 where four categories fell: last month had Rent 400, Fun 30, Cafe 20 and Bus 10,
  this month has no expense.  The sorted changes end with the largest fall, Rent by
  400, and \<open>topDecreases\<close> holds the three smallest falls without it.
\<close>

theorem topDecreases_misses_largest_fall:
  "sortDesc snd (categoryChanges
        (getSpendingSummary env0 fallStorage (Some (getCurrentMonthRange env0)))
        (getSpendingSummary env0 fallStorage (Some (getLastMonthRange env0))))
     = [(''Bus'', - 10), (''Cafe'', - 20), (''Fun'', - 30), (''Rent'', - 400)]
   \<and> cmp_topDecreases (compareToLastMonth env0 fallStorage)
     = [(''Bus'', - 10), (''Cafe'', - 20), (''Fun'', - 30)]
   \<and> cmp_topIncreases (compareToLastMonth env0 fallStorage) = []"
  by code_simp

section \<open>Properties of the natural-language extractor\<close>

lemma tryPattern_positive: "tryPattern input pattern = Some a \<Longrightarrow> 0 < a"
  by (auto simp: tryPattern_def split: option.splits if_splits)

lemma firstAmount_positive: "firstAmount input patterns = Some a \<Longrightarrow> 0 < a"
proof (induction patterns)
  case Nil
  then show ?case by simp
next
  case (Cons pattern patterns)
  show ?case
  proof (cases "tryPattern input pattern")
    case None
    with Cons show ?thesis by simp
  next
    case (Some b)
    with Cons.prems have "b = a" by simp
    with Some show ?thesis by (simp add: tryPattern_positive)
  qed
qed

lemma anyNumber_positive: "anyNumber input = Some a \<Longrightarrow> 0 < a"
  by (auto simp: anyNumber_def split: option.splits if_splits)

lemma extractAmount_positive: "extractAmount input = Some a \<Longrightarrow> 0 < a"
  by (auto simp: extractAmount_def firstAmount_positive anyNumber_positive split: option.splits)



lemma confidence_values:
  assumes "0 < a"
  shows "calculateConfidence e (Some a) category date
           = min 1 (7 / 10 + (if category \<noteq> ''Other Expenses'' then 2 / 10 else 0)
                           + (if date \<noteq> formatDateISO (now e) then 1 / 10 else 0))"
  using assms by (simp add: calculateConfidence_def Let_def)

lemma parse_Some:
  assumes "determineTransactionType (trim (toLowerCase input)) = Some ty"
    and "extractAmount (trim (toLowerCase input)) = Some a"
  shows "parseNaturalLanguage e input
           = Some \<lparr>p_type = ty, p_amount = a,
                   p_category = extractCategory (trim (toLowerCase input)),
                   p_description = extractDescription (trim (toLowerCase input))
                                     (extractCategory (trim (toLowerCase input))),
                   p_date = extractDate e (trim (toLowerCase input)),
                   p_confidence = calculateConfidence e (Some a)
                                    (extractCategory (trim (toLowerCase input)))
                                    (extractDate e (trim (toLowerCase input))),
                   p_rawInput = input\<rparr>"
  using assms by (simp add: parseNaturalLanguage_def Let_def)

lemma parse_None:
  "parseNaturalLanguage e input = None
     \<longleftrightarrow> determineTransactionType (trim (toLowerCase input)) = None
         \<or> extractAmount (trim (toLowerCase input)) = None"
  by (simp add: parseNaturalLanguage_def Let_def split: option.splits)

text \<open>
  C10: on every input for which the extractor returns a result, the amount is positive,
  so the amount bonus is part of the confidence, and the confidence lies between 0.7 and
  1.
\<close>

theorem parse_confidence_range:
  assumes "parseNaturalLanguage e input = Some r"
  shows "0 < p_amount r
       \<and> p_confidence r
           = min 1 (7 / 10 + (if p_category r \<noteq> ''Other Expenses'' then 2 / 10 else 0)
                           + (if p_date r \<noteq> formatDateISO (now e) then 1 / 10 else 0))
       \<and> 7 / 10 \<le> p_confidence r \<and> p_confidence r \<le> 1"
proof -
  obtain ty where ty: "determineTransactionType (trim (toLowerCase input)) = Some ty"
    using assms parse_None[of e input] by (cases "determineTransactionType (trim (toLowerCase input))") auto
  obtain a where a: "extractAmount (trim (toLowerCase input)) = Some a"
    using assms parse_None[of e input] by (cases "extractAmount (trim (toLowerCase input))") auto
  have pos: "0 < a" using a by (rule extractAmount_positive)
  have r: "p_amount r = a"
      "p_category r = extractCategory (trim (toLowerCase input))"
      "p_date r = extractDate e (trim (toLowerCase input))"
      "p_confidence r = calculateConfidence e (Some a) (p_category r) (p_date r)"
    using assms parse_Some[OF ty a, of e] by auto
  have c: "p_confidence r
           = min 1 (7 / 10 + (if p_category r \<noteq> ''Other Expenses'' then 2 / 10 else 0)
                           + (if p_date r \<noteq> formatDateISO (now e) then 1 / 10 else 0))"
    using r(4) confidence_values[OF pos] by simp
  then have "7 / 10 \<le> p_confidence r \<and> p_confidence r \<le> 1"
    by (simp add: min_def)
  with pos r(1) c show ?thesis by simp
qed

lemma bob_parse:
  "parseNaturalLanguage env0 ''12 bucks from Bob''
     = Some \<lparr>p_type = income, p_amount = 12, p_category = ''Other Expenses'',
             p_description = ''12 bucks bob'', p_date = 19675, p_confidence = 7 / 10,
             p_rawInput = ''12 bucks from Bob''\<rparr>"
  by code_simp

theorem parse_confidence_range_witness:
  "parseNaturalLanguage env0 ''12 bucks from Bob''
     = Some \<lparr>p_type = income, p_amount = 12, p_category = ''Other Expenses'',
             p_description = ''12 bucks bob'', p_date = 19675, p_confidence = 7 / 10,
             p_rawInput = ''12 bucks from Bob''\<rparr>
   \<and> (7::real) / 10 \<le> 7 / 10 \<and> (7::real) / 10 \<le> 1"
  using parse_confidence_range[OF bob_parse] bob_parse by simp









end
